theory Spec2Isabelle
  imports Complex_Main
begin

section \<open>Numbers and text fields\<close>

text \<open>
  The component keeps every numeric parameter as the text of its input field and
  turns it into a number only when the system is calculated. A number of the
  source language is modelled by \<open>number\<close>: a real value, one of the two
  infinities, or the not-a-number value. The arithmetic follows the rules of the
  language for the special values (\<open>Infinity * 0\<close> and \<open>Infinity - Infinity\<close>
  are not-a-number). Rounding to 64-bit binary floating point, overflow to an
  infinity and the sign of zero are not modelled: a finite value is the exact
  real number.
\<close>

datatype number = NaN | PosInfinity | NegInfinity | Finite real

fun number_add :: "number \<Rightarrow> number \<Rightarrow> number" where
  "number_add NaN _ = NaN"
| "number_add _ NaN = NaN"
| "number_add PosInfinity NegInfinity = NaN"
| "number_add NegInfinity PosInfinity = NaN"
| "number_add PosInfinity _ = PosInfinity"
| "number_add _ PosInfinity = PosInfinity"
| "number_add NegInfinity _ = NegInfinity"
| "number_add _ NegInfinity = NegInfinity"
| "number_add (Finite p) (Finite q) = Finite (p + q)"

definition flip_sign :: "number \<Rightarrow> number" where
  "flip_sign n = (case n of NaN \<Rightarrow> NaN | PosInfinity \<Rightarrow> NegInfinity
     | NegInfinity \<Rightarrow> PosInfinity | Finite p \<Rightarrow> Finite (- p))"

definition scale_infinity :: "number \<Rightarrow> real \<Rightarrow> number" where
  "scale_infinity infinity p =
     (if p = 0 then NaN else if 0 < p then infinity else flip_sign infinity)"

fun number_mul :: "number \<Rightarrow> number \<Rightarrow> number" where
  "number_mul NaN _ = NaN"
| "number_mul _ NaN = NaN"
| "number_mul (Finite p) (Finite q) = Finite (p * q)"
| "number_mul (Finite p) PosInfinity = scale_infinity PosInfinity p"
| "number_mul (Finite p) NegInfinity = scale_infinity NegInfinity p"
| "number_mul PosInfinity (Finite q) = scale_infinity PosInfinity q"
| "number_mul NegInfinity (Finite q) = scale_infinity NegInfinity q"
| "number_mul PosInfinity PosInfinity = PosInfinity"
| "number_mul NegInfinity NegInfinity = PosInfinity"
| "number_mul PosInfinity NegInfinity = NegInfinity"
| "number_mul NegInfinity PosInfinity = NegInfinity"

instantiation number :: "{comm_monoid_add, one, times}"
begin

definition zero_number :: number where
  "zero_number = Finite 0"

definition one_number :: number where
  "one_number = Finite 1"

definition plus_number :: "number \<Rightarrow> number \<Rightarrow> number" where
  "plus_number p q = number_add p q"

definition times_number :: "number \<Rightarrow> number \<Rightarrow> number" where
  "times_number p q = number_mul p q"

instance
proof
  fix p q r :: number
  show "p + q + r = p + (q + r)"
    unfolding plus_number_def by (cases p; cases q; cases r) simp_all
  show "p + q = q + p"
    unfolding plus_number_def by (cases p; cases q) simp_all
  show "0 + p = p"
    unfolding plus_number_def zero_number_def by (cases p) simp_all
qed

end

definition isNaN :: "number \<Rightarrow> bool" where
  "isNaN n = (n = NaN)"

subsection \<open>The built-in \<open>parseFloat\<close>\<close>

text \<open>
  \<open>parseFloat\<close> belongs to the language, not to the repository. It skips leading
  white space and converts the longest prefix of the rest that is a decimal
  literal: an optional sign, then \<open>Infinity\<close>, or digits with an optional
  fraction, or a fraction alone, each with an optional exponent. Characters after
  that prefix are ignored; without such a prefix the result is not-a-number.
  Strings are ASCII here, so only the ASCII white space is skipped.
\<close>

definition isDigit :: "char \<Rightarrow> bool" where
  "isDigit c = (c \<in> set ''0123456789'')"

definition isWhiteSpace :: "char \<Rightarrow> bool" where
  "isWhiteSpace c =
     (c \<in> {CHR 0x09, CHR 0x0A, CHR 0x0B, CHR 0x0C, CHR 0x0D, CHR '' ''})"

definition digitsValue :: "string \<Rightarrow> nat" where
  "digitsValue ds = foldl (\<lambda>n c. 10 * n + (of_char c - 48)) 0 ds"

definition pow10 :: "int \<Rightarrow> real" where
  "pow10 e = (if 0 \<le> e then 10 ^ nat e else 1 / 10 ^ nat (- e))"

definition exponentPart :: "string \<Rightarrow> int" where
  \<comment> \<open>The value of a complete exponent part at the head of the string; 0 when
      there is none (an \<open>e\<close> without digits is not part of the literal).\<close>
  "exponentPart r =
     (if take 1 r = ''e'' \<or> take 1 r = ''E'' then
        (if take 1 (drop 1 r) = ''-''
           then - int (digitsValue (takeWhile isDigit (drop 2 r)))
         else if take 1 (drop 1 r) = ''+''
           then int (digitsValue (takeWhile isDigit (drop 2 r)))
         else int (digitsValue (takeWhile isDigit (drop 1 r))))
      else 0)"

definition parseFloat :: "string \<Rightarrow> number" where
  "parseFloat inputString =
     (let trimmed = dropWhile isWhiteSpace inputString;
          negative = (take 1 trimmed = ''-'');
          unsigned = (if take 1 trimmed = ''-'' \<or> take 1 trimmed = ''+''
                      then drop 1 trimmed else trimmed)
      in if take 8 unsigned = ''Infinity''
         then (if negative then NegInfinity else PosInfinity)
         else
           let intDigits = takeWhile isDigit unsigned;
               afterInt = dropWhile isDigit unsigned;
               hasPoint = (take 1 afterInt = ''.'');
               fracDigits = (if hasPoint then takeWhile isDigit (drop 1 afterInt) else []);
               afterFrac = (if hasPoint then dropWhile isDigit (drop 1 afterInt) else afterInt)
           in if intDigits = [] \<and> fracDigits = [] then NaN
              else
                let magnitude = real (digitsValue (intDigits @ fracDigits))
                      * pow10 (exponentPart afterFrac - int (length fracDigits))
                in Finite (if negative then - magnitude else magnitude))"

subsection \<open>The two text collaborators\<close>

text \<open>
  Both source files define \<open>handleNumericInput\<close> and \<open>safeParseFloat\<close> with the
  same text. The callback of \<open>handleNumericInput\<close> stores the value in the
  component's state, so it is a state transformer here; not calling it leaves the
  state as it was.
\<close>

definition handleNumericInput :: "string \<Rightarrow> (string \<Rightarrow> 's \<Rightarrow> 's) \<Rightarrow> 's \<Rightarrow> 's" where
  "handleNumericInput v callback s =
     (if v = '''' \<or> v = ''-'' \<or> v = ''.'' \<or> v = ''-.'' \<or> \<not> isNaN (parseFloat v)
      then callback v s
      else s)"

definition safeParseFloat :: "string \<Rightarrow> number" where
  "safeParseFloat v =
     (if v = '''' \<or> v = ''-'' \<or> v = ''.'' \<or> v = ''-.'' then 0
      else let parsed = parseFloat v in if isNaN parsed then 0 else parsed)"


section \<open>The recurrence engines\<close>

text \<open>
  The numeric core of \<open>calculateSystem\<close> is written over any type with \<open>0\<close>,
  \<open>+\<close> and \<open>*\<close>: the code uses nothing else of its numbers. Vectors and
  matrices are lists and lists of rows, read by index as in the source. The
  result arrays are allocated with zeros and filled by index; an assignment to
  \<open>a[i][0]\<close> is an update of row \<open>i\<close> of \<open>a\<close>. A counting loop is a
  \<open>fold\<close> over its index range.
\<close>

subsection \<open>Fixed transition matrix (\<open>dynamic-system-plot.tsx\<close>)\<close>

definition evolve_body ::
  "'a::{zero,plus,times} list list \<Rightarrow> nat \<Rightarrow> 'a list list \<times> 'a list \<Rightarrow> 'a list list \<times> 'a list" where
  \<comment> \<open>One pass of the loop at index \<open>i\<close>. \<open>a_prev\<close> is row \<open>i - 1\<close>, which the
      pass does not write.\<close>
  "evolve_body w i = (\<lambda>(a, x).
     let a_prev = a ! (i - 1);
         a = a[i := (a ! i)[0 := w ! 0 ! 0 * a_prev ! 0 + w ! 0 ! 1 * a_prev ! 1]];
         a = a[i := (a ! i)[1 := w ! 1 ! 0 * a_prev ! 0 + w ! 1 ! 1 * a_prev ! 1]];
         x = x[i := a ! (i - 1) ! 0 * x ! (i - 1) + a ! (i - 1) ! 1]
     in (a, x))"

definition evolve ::
  "'a::{zero,plus,times} list \<Rightarrow> 'a \<Rightarrow> 'a list list \<Rightarrow> nat \<Rightarrow> 'a list list \<times> 'a list" where
  "evolve a0 x0 w steps =
     (let a = replicate (steps + 1) [0, 0];
          x = replicate (steps + 1) 0;
          a = a[0 := a0];
          x = x[0 := x0]
      in fold (evolve_body w) [1..<steps + 1] (a, x))"

subsection \<open>Evolving transition matrix (\<open>unnamed/part_000\<close>)\<close>

definition vectorMatrixMultiply :: "'a::{zero,plus,times} list \<Rightarrow> 'a list list \<Rightarrow> 'a list" where
  "vectorMatrixMultiply v M =
     fold (\<lambda>j result.
             fold (\<lambda>i result. result[j := result ! j + v ! i * M ! i ! j])
                  [0..<length v] result)
          [0..<length (M ! 0)]
          (replicate (length (M ! 0)) 0)"

definition flattenMatrix :: "'a list list \<Rightarrow> 'a list" where
  "flattenMatrix M = [M ! 0 ! 0, M ! 0 ! 1, M ! 1 ! 0, M ! 1 ! 1]"

definition reshapeToMatrix :: "'a list \<Rightarrow> 'a list list" where
  "reshapeToMatrix v = [[v ! 0, v ! 1], [v ! 2, v ! 3]]"

definition evolveWithDrift_body ::
  "'a::{zero,plus,times} list list \<Rightarrow> nat
   \<Rightarrow> 'a list list \<times> 'a list \<times> 'a list list list
   \<Rightarrow> 'a list list \<times> 'a list \<times> 'a list list list" where
  "evolveWithDrift_body W_evolve i = (\<lambda>(a, x, w).
     let w_flat = flattenMatrix (w ! (i - 1));
         w_next_flat = vectorMatrixMultiply w_flat W_evolve;
         w = w[i := reshapeToMatrix w_next_flat];
         a = a[i := vectorMatrixMultiply (a ! (i - 1)) (w ! (i - 1))];
         x = x[i := a ! (i - 1) ! 0 * x ! (i - 1) + a ! (i - 1) ! 1]
     in (a, x, w))"

definition evolveWithDrift ::
  "'a::{zero,plus,times} list \<Rightarrow> 'a \<Rightarrow> 'a list list \<Rightarrow> 'a list list \<Rightarrow> nat
   \<Rightarrow> 'a list list \<times> 'a list \<times> 'a list list list" where
  "evolveWithDrift a0 x0 w0 W_evolve steps =
     (let a = replicate (steps + 1) [0, 0];
          x = replicate (steps + 1) 0;
          w = replicate (steps + 1) [[0, 0], [0, 0]];
          a = a[0 := a0];
          x = x[0 := x0];
          w = w[0 := map (\<lambda>row. row) w0]
      in fold (evolveWithDrift_body W_evolve) [1..<steps + 1] (a, x, w))"

text \<open>
  The shapes that the contracts of the two engines name. The input handlers of
  the component only replace single entries, so its vectors and matrices keep
  the shapes of the defaults. Where the source would read an entry that is not
  there, the model reads an unspecified number; the theorems that depend on the
  entries assume the shapes.
\<close>

definition is_vec :: "nat \<Rightarrow> 'a list \<Rightarrow> bool" where
  "is_vec n v = (length v = n)"

definition is_mat :: "nat \<Rightarrow> nat \<Rightarrow> 'a list list \<Rightarrow> bool" where
  "is_mat r c M = (length M = r \<and> list_all (is_vec c) M)"

definition identity4 :: "'a::{zero,one} list list" where
  "identity4 = [[1, 0, 0, 0], [0, 1, 0, 0], [0, 0, 1, 0], [0, 0, 0, 1]]"

definition transpose2 :: "'a list list \<Rightarrow> 'a list list" where
  "transpose2 w = [[w ! 0 ! 0, w ! 1 ! 0], [w ! 0 ! 1, w ! 1 ! 1]]"

section \<open>The component state\<close>

text \<open>
  \<open>calculateSystem\<close> reads the parameters held by the component, each numeric
  field as its text, and replaces the results. A default that the source writes
  as a number is held as its decimal text, which is what \<open>parseFloat\<close> makes
  of a number before it parses. The step count is a natural number.
\<close>

record chart_point =
  cp_step :: nat
  cp_x :: number
  cp_multiplier :: number
  cp_constant :: number

record results =
  r_x :: "chart_point list"
  r_a :: "number list list"

record params =
  p_a0 :: "string list"
  p_x0 :: string
  p_w :: "string list list"
  p_steps :: nat

record component =
  params :: params
  results :: results
  showCoefficients :: bool

definition calculateSystem :: "component \<Rightarrow> component" where
  "calculateSystem s =
     (let a0 = map safeParseFloat (p_a0 (params s));
          x0 = safeParseFloat (p_x0 (params s));
          w = map (map safeParseFloat) (p_w (params s));
          steps = p_steps (params s);
          (a, x) = evolve a0 x0 w steps;
          chartData = map (\<lambda>(index, v).
              \<lparr>cp_step = index, cp_x = v,
               cp_multiplier = a ! index ! 0, cp_constant = a ! index ! 1\<rparr>)
            (enumerate 0 x)
      in s\<lparr>results := \<lparr>r_x = chartData, r_a = a\<rparr>\<rparr>)"

definition handleX0Change :: "string \<Rightarrow> component \<Rightarrow> component" where
  "handleX0Change v s =
     handleNumericInput v
       (\<lambda>newValue s'. s'\<lparr>params := (params s)\<lparr>p_x0 := newValue\<rparr>\<rparr>) s"

record chart_pointW = chart_point +
  cp_w00 :: number
  cp_w01 :: number
  cp_w10 :: number
  cp_w11 :: number

record resultsW =
  rw_x :: "chart_pointW list"
  rw_a :: "number list list"
  rw_w :: "number list list list"

record paramsW =
  pw_a0 :: "string list"
  pw_x0 :: string
  pw_w0 :: "string list list"
  pw_W_evolve :: "string list list"
  pw_steps :: nat

record componentW =
  paramsW :: paramsW
  resultsW :: resultsW
  showCoefficientsW :: bool
  showTransitionMatrix :: bool
  showWEvolutionMatrix :: bool

definition calculateSystemW :: "componentW \<Rightarrow> componentW" where
  "calculateSystemW s =
     (let a0 = map safeParseFloat (pw_a0 (paramsW s));
          x0 = safeParseFloat (pw_x0 (paramsW s));
          w0 = map (map safeParseFloat) (pw_w0 (paramsW s));
          W_evolve = map (map safeParseFloat) (pw_W_evolve (paramsW s));
          steps = pw_steps (paramsW s);
          (a, x, w) = evolveWithDrift a0 x0 w0 W_evolve steps;
          chartData = map (\<lambda>(index, v).
              \<lparr>cp_step = index, cp_x = v,
               cp_multiplier = a ! index ! 0, cp_constant = a ! index ! 1,
               cp_w00 = w ! index ! 0 ! 0, cp_w01 = w ! index ! 0 ! 1,
               cp_w10 = w ! index ! 1 ! 0, cp_w11 = w ! index ! 1 ! 1\<rparr>)
            (enumerate 0 x)
      in s\<lparr>resultsW := \<lparr>rw_x = chartData, rw_a = a, rw_w = w\<rparr>\<rparr>)"


section \<open>The recurrences as sequences\<close>

text \<open>
  The value that each engine leaves at index \<open>n\<close>, as a function of \<open>n\<close>.
  The loops are shown below to fill their arrays with exactly these values.
\<close>

fun fixed_seq :: "'a::{zero,plus,times} list list \<Rightarrow> 'a list \<Rightarrow> 'a \<Rightarrow> nat \<Rightarrow> 'a list \<times> 'a" where
  "fixed_seq w a0 x0 0 = (a0, x0)"
| "fixed_seq w a0 x0 (Suc n) =
     (let (p, y) = fixed_seq w a0 x0 n
      in ([w ! 0 ! 0 * p ! 0 + w ! 0 ! 1 * p ! 1, w ! 1 ! 0 * p ! 0 + w ! 1 ! 1 * p ! 1],
          p ! 0 * y + p ! 1))"

fun drift_w :: "'a::{zero,plus,times} list list \<Rightarrow> 'a list list \<Rightarrow> nat \<Rightarrow> 'a list list" where
  "drift_w W_evolve w0 0 = w0"
| "drift_w W_evolve w0 (Suc n) =
     reshapeToMatrix (vectorMatrixMultiply (flattenMatrix (drift_w W_evolve w0 n)) W_evolve)"

fun drift_seq ::
  "'a::{zero,plus,times} list list \<Rightarrow> 'a list list \<Rightarrow> 'a list \<Rightarrow> 'a \<Rightarrow> nat \<Rightarrow> 'a list \<times> 'a" where
  "drift_seq W_evolve w0 a0 x0 0 = (a0, x0)"
| "drift_seq W_evolve w0 a0 x0 (Suc n) =
     (let (p, y) = drift_seq W_evolve w0 a0 x0 n
      in (vectorMatrixMultiply p (drift_w W_evolve w0 n), p ! 0 * y + p ! 1))"

section \<open>The loops fill the arrays with the recurrences\<close>

lemmas parse_defs =
  parseFloat_def isDigit_def isWhiteSpace_def digitsValue_def pow10_def
  exponentPart_def isNaN_def

lemma evolve_body_prefix:
  assumes "length A = Suc k" "length X = Suc k"
  shows "evolve_body w (Suc k) (A @ replicate (Suc n) [0, 0], X @ replicate (Suc n) 0)
     = ((A @ [[w ! 0 ! 0 * A ! k ! 0 + w ! 0 ! 1 * A ! k ! 1,
               w ! 1 ! 0 * A ! k ! 0 + w ! 1 ! 1 * A ! k ! 1]]) @ replicate n [0, 0],
        (X @ [A ! k ! 0 * X ! k + A ! k ! 1]) @ replicate n 0)"
  using assms by (simp add: evolve_body_def Let_def list_update_append nth_append)

lemma evolve_fold:
  "k \<le> steps \<Longrightarrow>
   fold (evolve_body w) [1..<Suc k] (a0 # replicate steps [0, 0], x0 # replicate steps 0)
   = (map (\<lambda>n. fst (fixed_seq w a0 x0 n)) [0..<Suc k] @ replicate (steps - k) [0, 0],
      map (\<lambda>n. snd (fixed_seq w a0 x0 n)) [0..<Suc k] @ replicate (steps - k) 0)"
proof (induction k)
  case 0
  show ?case by simp
next
  case (Suc k)
  then obtain n where n: "steps - k = Suc n" "steps - Suc k = n"
    by (metis Suc_diff_Suc Suc_le_lessD)
  have "fold (evolve_body w) [1..<Suc (Suc k)]
          (a0 # replicate steps [0, 0], x0 # replicate steps 0)
        = evolve_body w (Suc k)
            (map (\<lambda>n. fst (fixed_seq w a0 x0 n)) [0..<Suc k] @ replicate (Suc n) [0, 0],
             map (\<lambda>n. snd (fixed_seq w a0 x0 n)) [0..<Suc k] @ replicate (Suc n) 0)"
    using Suc n by simp
  also have "\<dots> =
     (map (\<lambda>n. fst (fixed_seq w a0 x0 n)) [0..<Suc (Suc k)] @ replicate n [0, 0],
      map (\<lambda>n. snd (fixed_seq w a0 x0 n)) [0..<Suc (Suc k)] @ replicate n 0)"
    by (subst evolve_body_prefix)
       (simp_all add: nth_append split: prod.split del: upt_Suc add: upt_Suc_append)
  finally show ?case using n by simp
qed

lemma evolve_eq:
  "evolve a0 x0 w steps =
     (map (\<lambda>n. fst (fixed_seq w a0 x0 n)) [0..<Suc steps],
      map (\<lambda>n. snd (fixed_seq w a0 x0 n)) [0..<Suc steps])"
  using evolve_fold [of steps steps w a0 x0] by (simp add: evolve_def)

lemma inner_fold:
  fixes r :: "'a::comm_monoid_add list"
  shows "j < length r \<Longrightarrow>
    fold (\<lambda>i r. r[j := r ! j + f i]) [0..<n] r = r[j := r ! j + (\<Sum>i<n. f i)]"
proof (induction n)
  case 0
  then show ?case by simp
next
  case (Suc n)
  then show ?case by (simp add: add.assoc)
qed

lemma outer_fold:
  fixes g :: "nat \<Rightarrow> nat \<Rightarrow> 'a::comm_monoid_add"
  shows "m \<le> n \<Longrightarrow>
    fold (\<lambda>j r. fold (\<lambda>i r. r[j := r ! j + g i j]) [0..<l] r) [0..<m] (replicate n 0)
    = map (\<lambda>j. \<Sum>i<l. g i j) [0..<m] @ replicate (n - m) 0"
proof (induction m)
  case 0
  then show ?case by simp
next
  case (Suc m)
  then obtain d where d: "n - m = Suc d" "n - Suc m = d"
    by (metis Suc_diff_Suc Suc_le_lessD)
  show ?case using Suc d
    by (simp add: inner_fold list_update_append nth_append)
qed

lemma vectorMatrixMultiply_eq:
  fixes v :: "'a::{comm_monoid_add,times} list"
  shows "vectorMatrixMultiply v M =
     map (\<lambda>j. \<Sum>i<length v. v ! i * M ! i ! j) [0..<length (M ! 0)]"
  unfolding vectorMatrixMultiply_def
  using outer_fold [of "length (M ! 0)" "length (M ! 0)" "\<lambda>i j. v ! i * M ! i ! j" "length v"]
  by simp

lemma evolveWithDrift_body_prefix:
  assumes "length A = Suc k" "length X = Suc k" "length Ws = Suc k"
  shows "evolveWithDrift_body W_evolve (Suc k)
           (A @ replicate (Suc n) [0, 0], X @ replicate (Suc n) 0,
            Ws @ replicate (Suc n) [[0, 0], [0, 0]])
     = ((A @ [vectorMatrixMultiply (A ! k) (Ws ! k)]) @ replicate n [0, 0],
        (X @ [A ! k ! 0 * X ! k + A ! k ! 1]) @ replicate n 0,
        (Ws @ [reshapeToMatrix (vectorMatrixMultiply (flattenMatrix (Ws ! k)) W_evolve)])
           @ replicate n [[0, 0], [0, 0]])"
  using assms
  by (simp add: evolveWithDrift_body_def Let_def list_update_append nth_append)

lemma evolveWithDrift_fold:
  "k \<le> steps \<Longrightarrow>
   fold (evolveWithDrift_body W_evolve) [1..<Suc k]
     (a0 # replicate steps [0, 0], x0 # replicate steps 0,
      w0 # replicate steps [[0, 0], [0, 0]])
   = (map (\<lambda>n. fst (drift_seq W_evolve w0 a0 x0 n)) [0..<Suc k]
        @ replicate (steps - k) [0, 0],
      map (\<lambda>n. snd (drift_seq W_evolve w0 a0 x0 n)) [0..<Suc k]
        @ replicate (steps - k) 0,
      map (drift_w W_evolve w0) [0..<Suc k] @ replicate (steps - k) [[0, 0], [0, 0]])"
proof (induction k)
  case 0
  show ?case by simp
next
  case (Suc k)
  then obtain n where n: "steps - k = Suc n" "steps - Suc k = n"
    by (metis Suc_diff_Suc Suc_le_lessD)
  have "fold (evolveWithDrift_body W_evolve) [1..<Suc (Suc k)]
          (a0 # replicate steps [0, 0], x0 # replicate steps 0,
           w0 # replicate steps [[0, 0], [0, 0]])
        = evolveWithDrift_body W_evolve (Suc k)
            (map (\<lambda>n. fst (drift_seq W_evolve w0 a0 x0 n)) [0..<Suc k]
               @ replicate (Suc n) [0, 0],
             map (\<lambda>n. snd (drift_seq W_evolve w0 a0 x0 n)) [0..<Suc k]
               @ replicate (Suc n) 0,
             map (drift_w W_evolve w0) [0..<Suc k] @ replicate (Suc n) [[0, 0], [0, 0]])"
    using Suc n by simp
  also have "\<dots> =
     (map (\<lambda>n. fst (drift_seq W_evolve w0 a0 x0 n)) [0..<Suc (Suc k)] @ replicate n [0, 0],
      map (\<lambda>n. snd (drift_seq W_evolve w0 a0 x0 n)) [0..<Suc (Suc k)] @ replicate n 0,
      map (drift_w W_evolve w0) [0..<Suc (Suc k)] @ replicate n [[0, 0], [0, 0]])"
    by (subst evolveWithDrift_body_prefix)
       (simp_all add: nth_append split: prod.split del: upt_Suc add: upt_Suc_append)
  finally show ?case using n by simp
qed

lemma evolveWithDrift_eq:
  "evolveWithDrift a0 x0 w0 W_evolve steps =
     (map (\<lambda>n. fst (drift_seq W_evolve w0 a0 x0 n)) [0..<Suc steps],
      map (\<lambda>n. snd (drift_seq W_evolve w0 a0 x0 n)) [0..<Suc steps],
      map (drift_w W_evolve w0) [0..<Suc steps])"
  using evolveWithDrift_fold [of steps steps W_evolve a0 x0 w0]
  by (simp add: evolveWithDrift_def)


lemma fixed_seq_step:
  "fst (fixed_seq w a0 x0 (Suc n)) =
     [w ! 0 ! 0 * fst (fixed_seq w a0 x0 n) ! 0 + w ! 0 ! 1 * fst (fixed_seq w a0 x0 n) ! 1,
      w ! 1 ! 0 * fst (fixed_seq w a0 x0 n) ! 0 + w ! 1 ! 1 * fst (fixed_seq w a0 x0 n) ! 1]"
  "snd (fixed_seq w a0 x0 (Suc n)) =
     fst (fixed_seq w a0 x0 n) ! 0 * snd (fixed_seq w a0 x0 n) + fst (fixed_seq w a0 x0 n) ! 1"
  by (simp_all split: prod.split)

lemma drift_seq_step:
  "fst (drift_seq W_evolve w0 a0 x0 (Suc n)) =
     vectorMatrixMultiply (fst (drift_seq W_evolve w0 a0 x0 n)) (drift_w W_evolve w0 n)"
  "snd (drift_seq W_evolve w0 a0 x0 (Suc n)) =
     fst (drift_seq W_evolve w0 a0 x0 n) ! 0 * snd (drift_seq W_evolve w0 a0 x0 n)
       + fst (drift_seq W_evolve w0 a0 x0 n) ! 1"
  by (simp_all split: prod.split)

lemma nth_map_upt_Suc: "i \<le> n \<Longrightarrow> map f [0..<Suc n] ! i = f i"
  using nth_map_upt [of i "Suc n" 0 f] by simp

section \<open>Shapes and small products\<close>

lemma is_vec2E: "is_vec 2 v \<Longrightarrow> \<exists>p q. v = [p, q]"
  by (auto simp: is_vec_def eval_nat_numeral length_Suc_conv)

lemma is_vec4E: "is_vec 4 v \<Longrightarrow> \<exists>p q r s. v = [p, q, r, s]"
  by (auto simp: is_vec_def eval_nat_numeral length_Suc_conv)

lemma is_mat22E:
  assumes "is_mat 2 2 M"
  shows "\<exists>p q r s. M = [[p, q], [r, s]]"
proof -
  from assms obtain r1 r2 where M: "M = [r1, r2]"
    using is_vec2E [of M] by (auto simp: is_mat_def is_vec_def)
  with assms have "is_vec 2 r1" "is_vec 2 r2" by (simp_all add: is_mat_def)
  then show ?thesis using M by (metis is_vec2E)
qed

lemma is_mat_row0: "is_mat (Suc r) c M \<Longrightarrow> length (M ! 0) = c"
  by (cases M) (simp_all add: is_mat_def is_vec_def)

lemma vectorMatrixMultiply_2:
  "vectorMatrixMultiply [p, q] [[m00, m01], [m10, m11]]
     = [0 + p * m00 + q * m10, 0 + p * m01 + q * m11]"
  by (simp add: vectorMatrixMultiply_def upt_rec eval_nat_numeral)

lemma vectorMatrixMultiply_4:
  "vectorMatrixMultiply [p, q, r, s]
     [[e00, e01, e02, e03], [e10, e11, e12, e13], [e20, e21, e22, e23], [e30, e31, e32, e33]]
   = [0 + p * e00 + q * e10 + r * e20 + s * e30,
      0 + p * e01 + q * e11 + r * e21 + s * e31,
      0 + p * e02 + q * e12 + r * e22 + s * e32,
      0 + p * e03 + q * e13 + r * e23 + s * e33]"
  by (simp add: vectorMatrixMultiply_def upt_rec eval_nat_numeral)

lemma drift_w_row0: "length (w0 ! 0) = 2 \<Longrightarrow> length (drift_w W_evolve w0 n ! 0) = 2"
  by (cases n) (simp_all add: reshapeToMatrix_def)

lemma drift_seq_length:
  fixes a0 :: "'a::{comm_monoid_add,times} list"
  shows "length a0 = 2 \<Longrightarrow> length (w0 ! 0) = 2
    \<Longrightarrow> length (fst (drift_seq W_evolve w0 a0 x0 n)) = 2"
  by (cases n) (simp_all add: vectorMatrixMultiply_eq drift_w_row0 split: prod.split)

lemma number_arith:
  "Finite p + Finite q = Finite (p + q)" "Finite p * Finite q = Finite (p * q)"
  "(0::number) = Finite 0" "(1::number) = Finite 1"
  by (simp_all add: plus_number_def times_number_def zero_number_def one_number_def)

section \<open>Text input and coercion\<close>

text \<open>
  C2. \<open>handleNumericInput\<close> is meant to accept the four placeholders of a number
  being typed and the strings that are numbers, and to reject everything else,
  leaving the stored value unchanged. On the nine strings of the specification:
  the empty string, \<open>-\<close>, \<open>.\<close>, \<open>-.\<close>, \<open>3.14\<close> and \<open>-2\<close> are passed to
  the callback, \<open>abc\<close> and \<open>--1\<close> are not; but \<open>1.2.3\<close> is passed to the
  callback as well, because \<open>parseFloat\<close> converts its prefix \<open>1.2\<close>, and the
  handler of the field \<open>x0\<close> then stores \<open>1.2.3\<close>.
\<close>

theorem handleNumericInput_on_examples:
  "handleNumericInput '''' callback s = callback '''' s
   \<and> handleNumericInput ''-'' callback s = callback ''-'' s
   \<and> handleNumericInput ''.'' callback s = callback ''.'' s
   \<and> handleNumericInput ''-.'' callback s = callback ''-.'' s
   \<and> handleNumericInput ''3.14'' callback s = callback ''3.14'' s
   \<and> handleNumericInput ''-2'' callback s = callback ''-2'' s
   \<and> handleNumericInput ''abc'' callback s = s
   \<and> handleNumericInput ''--1'' callback s = s
   \<and> parseFloat ''1.2.3'' = Finite (12 / 10)
   \<and> handleNumericInput ''1.2.3'' callback s = callback ''1.2.3'' s
   \<and> p_x0 (params (handleX0Change ''1.2.3'' c)) = ''1.2.3''"
  by (simp add: handleNumericInput_def handleX0Change_def parse_defs Let_def)

text \<open>
  C7. \<open>safeParseFloat\<close> maps each of the four placeholders to \<open>0\<close>, maps
  \<open>-0.5\<close> to the number \<open>-0.5\<close>, maps \<open>abc\<close> and every other string that
  \<open>parseFloat\<close> cannot convert to \<open>0\<close>, and never yields not-a-number.
\<close>

theorem safeParseFloat_coercion:
  "safeParseFloat '''' = 0
   \<and> safeParseFloat ''-'' = 0
   \<and> safeParseFloat ''.'' = 0
   \<and> safeParseFloat ''-.'' = 0
   \<and> safeParseFloat ''-0.5'' = Finite (- 0.5)
   \<and> safeParseFloat ''abc'' = 0
   \<and> (\<forall>v. isNaN (parseFloat v) \<longrightarrow> safeParseFloat v = 0)
   \<and> (\<forall>v. \<not> isNaN (safeParseFloat v))"
proof -
  have placeholders: "safeParseFloat '''' = 0" "safeParseFloat ''-'' = 0"
    "safeParseFloat ''.'' = 0" "safeParseFloat ''-.'' = 0"
    by (simp_all add: safeParseFloat_def)
  have half: "safeParseFloat ''-0.5'' = Finite (- 0.5)"
    by (simp add: safeParseFloat_def parse_defs Let_def)
  have abc: "safeParseFloat ''abc'' = 0"
    by (simp add: safeParseFloat_def parse_defs Let_def)
  have fails: "\<forall>v. isNaN (parseFloat v) \<longrightarrow> safeParseFloat v = 0"
    by (simp add: safeParseFloat_def Let_def)
  have never: "\<forall>v. \<not> isNaN (safeParseFloat v)"
    by (simp add: safeParseFloat_def Let_def isNaN_def zero_number_def)
  show ?thesis using placeholders half abc fails never by blast
qed

theorem safeParseFloat_coercion_witness:
  "isNaN (parseFloat ''x1'') \<and> safeParseFloat ''x1'' = 0
   \<and> \<not> isNaN (safeParseFloat ''Infinity'')
   \<and> safeParseFloat ''Infinity'' = PosInfinity"
proof -
  have n: "isNaN (parseFloat ''x1'')" by (simp add: parse_defs Let_def)
  have i: "safeParseFloat ''Infinity'' = PosInfinity"
    by (simp add: safeParseFloat_def parse_defs Let_def)
  from safeParseFloat_coercion
  have "isNaN (parseFloat ''x1'') \<longrightarrow> safeParseFloat ''x1'' = 0"
    and "\<not> isNaN (safeParseFloat ''Infinity'')" by blast+
  with n i show ?thesis by simp
qed

section \<open>The fixed engine\<close>

text \<open>
  C3. In the fixed engine, for every index \<open>i\<close> from \<open>1\<close> to \<open>steps\<close>, the entry
  \<open>a[i]\<close> is the product of the matrix \<open>w\<close> with the column vector \<open>a[i-1]\<close>,
  and \<open>x[i] = a[i-1][0] * x[i-1] + a[i-1][1]\<close>, with the coefficients of the
  previous index. The theorem needs no law of arithmetic, so it holds for the
  numbers of the component as for the reals.
\<close>

theorem evolve_recurrence:
  assumes "1 \<le> i" and "i \<le> steps" and "evolve a0 x0 w steps = (a, x)"
  shows "a ! i = [w ! 0 ! 0 * a ! (i - 1) ! 0 + w ! 0 ! 1 * a ! (i - 1) ! 1,
                  w ! 1 ! 0 * a ! (i - 1) ! 0 + w ! 1 ! 1 * a ! (i - 1) ! 1]
       \<and> x ! i = a ! (i - 1) ! 0 * x ! (i - 1) + a ! (i - 1) ! 1"
proof -
  from assms(1) obtain k where k: "i = Suc k" by (cases i) auto
  have a: "a = map (\<lambda>n. fst (fixed_seq w a0 x0 n)) [0..<Suc steps]"
    and x: "x = map (\<lambda>n. snd (fixed_seq w a0 x0 n)) [0..<Suc steps]"
    using assms(3) by (simp_all add: evolve_eq)
  have le: "Suc k \<le> steps" "k \<le> steps" using assms(2) k by simp_all
  show ?thesis
    unfolding a x k using le
    by (simp add: nth_map_upt_Suc fixed_seq_step del: upt_Suc fixed_seq.simps)
qed

text \<open>
  The second fixed example of the specification: \<open>a0 = [2, 3]\<close>, \<open>x0 = 0\<close>, the
  zero matrix, two steps. At \<open>i = 1\<close> the value \<open>x[1] = 2 * 0 + 3 = 3\<close> comes
  from \<open>a[0]\<close>; with \<open>a[1] = [0, 0]\<close> it would be \<open>0\<close>.
\<close>

theorem evolve_recurrence_witness:
  "(1::nat) \<le> 1 \<and> (1::nat) \<le> 2
   \<and> evolve [2, 3] 0 [[0, 0], [0, 0]] 2 = ([[2, 3], [0, 0], [0, 0]], [0, 3, 0::real])
   \<and> [[2, 3], [0, 0], [0, 0::real]] ! 1 = [0, 0]
   \<and> [0, 3, 0::real] ! 1 = 2 * 0 + 3"
proof -
  have e: "evolve [2, 3] 0 [[0, 0], [0, 0]] 2 = ([[2, 3], [0, 0], [0, 0]], [0, 3, 0::real])"
    by (simp add: evolve_def evolve_body_def Let_def upt_rec eval_nat_numeral)
  show ?thesis
    using evolve_recurrence [of 1 2 "[2, 3]" "0::real" "[[0, 0], [0, 0]]", OF _ _ e] e
    by simp
qed

section \<open>The evolving engine\<close>

text \<open>
  C4. In the evolving engine, on inputs of the contract's shapes and for every
  index \<open>i\<close> from \<open>1\<close> to \<open>steps\<close>: \<open>w[i]\<close> is the reshaped row vector
  \<open>f'\<close> with \<open>f'[j] = \<Sum>k. f[k] * W_evolve[k][j]\<close>, where \<open>f\<close> is the
  flattened \<open>w[i-1]\<close>; \<open>a[i][j] = \<Sum>k. a[i-1][k] * w[i-1][k][j]\<close>, the row
  vector \<open>a[i-1]\<close> times the matrix before its evolution; and
  \<open>x[i] = a[i-1][0] * x[i-1] + a[i-1][1]\<close>. The sums need addition to be
  associative and commutative with unit \<open>0\<close>, which holds for the reals and for
  the numbers of the component.
\<close>

theorem evolveWithDrift_recurrence:
  fixes a0 :: "'a::{comm_monoid_add,times} list"
  assumes "is_vec 2 a0" and "is_mat 2 2 w0" and "is_mat 4 4 W_evolve"
    and "1 \<le> i" and "i \<le> steps"
    and "evolveWithDrift a0 x0 w0 W_evolve steps = (a, x, w)"
  shows "w ! i = reshapeToMatrix
           (map (\<lambda>j. \<Sum>k<4. flattenMatrix (w ! (i - 1)) ! k * W_evolve ! k ! j) [0..<4])
       \<and> a ! i = map (\<lambda>j. \<Sum>k<2. a ! (i - 1) ! k * w ! (i - 1) ! k ! j) [0..<2]
       \<and> x ! i = a ! (i - 1) ! 0 * x ! (i - 1) + a ! (i - 1) ! 1"
proof -
  from assms(4) obtain k where k: "i = Suc k" by (cases i) auto
  have a: "a = map (\<lambda>n. fst (drift_seq W_evolve w0 a0 x0 n)) [0..<Suc steps]"
    and x: "x = map (\<lambda>n. snd (drift_seq W_evolve w0 a0 x0 n)) [0..<Suc steps]"
    and w: "w = map (drift_w W_evolve w0) [0..<Suc steps]"
    using assms(6) by (simp_all add: evolveWithDrift_eq)
  have le: "Suc k \<le> steps" "k \<le> steps" using assms(5) k by simp_all
  have l0: "length (w0 ! 0) = 2" using assms(2) by (simp add: is_mat_row0 numeral_2_eq_2)
  have l4: "length (W_evolve ! 0) = 4"
    using assms(3) by (simp add: is_mat_row0 eval_nat_numeral)
  have la: "length a0 = 2" using assms(1) by (simp add: is_vec_def)
  have lf: "length (flattenMatrix M) = 4" for M :: "'a list list"
    by (simp add: flattenMatrix_def)
  show ?thesis
    unfolding a x w k using le
    by (simp add: nth_map_upt_Suc drift_seq_step vectorMatrixMultiply_eq l4 lf
          drift_w_row0 [OF l0] drift_seq_length [OF la l0]
        del: upt_Suc drift_seq.simps upt.simps)
qed

theorem evolveWithDrift_recurrence_witness:
  "is_vec 2 [1, 2::real] \<and> is_mat 2 2 [[1, 2], [3, 4::real]]
   \<and> is_mat 4 4 [[2, 0, 0, 0], [0, 2, 0, 0], [0, 0, 2, 0], [0, 0, 1, 2::real]]
   \<and> (1::nat) \<le> 1
   \<and> evolveWithDrift [1, 2] 3 [[1, 2], [3, 4]]
        [[2, 0, 0, 0], [0, 2, 0, 0], [0, 0, 2, 0], [0, 0, 1, 2::real]] 1
      = ([[1, 2], [7, 10]], [3, 5], [[[1, 2], [3, 4]], [[2, 4], [10, 8]]])
   \<and> [[[1, 2], [3, 4]], [[2, 4], [10, 8::real]]] ! 1
      = reshapeToMatrix
          (map (\<lambda>j. \<Sum>k<4. flattenMatrix [[1, 2], [3, 4]] ! k
                  * [[2, 0, 0, 0], [0, 2, 0, 0], [0, 0, 2, 0], [0, 0, 1, 2]] ! k ! j) [0..<4])
   \<and> [[1, 2], [7, 10::real]] ! 1
      = map (\<lambda>j. \<Sum>k<2. [1, 2] ! k * [[1, 2], [3, 4]] ! k ! j) [0..<2]
   \<and> [3, 5::real] ! 1 = 1 * 3 + 2"
proof -
  have v: "is_vec 2 [1, 2::real]" by (simp add: is_vec_def)
  have m: "is_mat 2 2 [[1, 2], [3, 4::real]]" by (simp add: is_mat_def is_vec_def)
  have e: "is_mat 4 4 [[2, 0, 0, 0], [0, 2, 0, 0], [0, 0, 2, 0], [0, 0, 1, 2::real]]"
    by (simp add: is_mat_def is_vec_def)
  have r: "evolveWithDrift [1, 2] 3 [[1, 2], [3, 4]]
        [[2, 0, 0, 0], [0, 2, 0, 0], [0, 0, 2, 0], [0, 0, 1, 2::real]] 1
      = ([[1, 2], [7, 10]], [3, 5], [[[1, 2], [3, 4]], [[2, 4], [10, 8]]])"
    by (simp add: evolveWithDrift_def evolveWithDrift_body_def Let_def upt_rec
        vectorMatrixMultiply_2 vectorMatrixMultiply_4 flattenMatrix_def reshapeToMatrix_def)
  show ?thesis
    using evolveWithDrift_recurrence [OF v m e _ _ r, of 1] v m e r by simp
qed

text \<open>
  C9. Flattening a 2 by 2 matrix and reshaping the result gives the matrix back,
  and reshaping a vector of four entries and flattening the result gives the
  vector back.
\<close>

theorem flatten_reshape_roundtrip:
  "(is_mat 2 2 M \<longrightarrow> reshapeToMatrix (flattenMatrix M) = M)
   \<and> (is_vec 4 v \<longrightarrow> flattenMatrix (reshapeToMatrix v) = v)"
proof (intro conjI impI)
  assume "is_mat 2 2 M"
  then obtain p q r s where "M = [[p, q], [r, s]]" using is_mat22E by blast
  then show "reshapeToMatrix (flattenMatrix M) = M"
    by (simp add: reshapeToMatrix_def flattenMatrix_def)
next
  assume "is_vec 4 v"
  then obtain p q r s where "v = [p, q, r, s]" using is_vec4E by blast
  then show "flattenMatrix (reshapeToMatrix v) = v"
    by (simp add: reshapeToMatrix_def flattenMatrix_def eval_nat_numeral)
qed

theorem flatten_reshape_roundtrip_witness:
  "is_mat 2 2 [[1, 2], [3, 4::int]]
   \<and> reshapeToMatrix (flattenMatrix [[1, 2], [3, 4::int]]) = [[1, 2], [3, 4]]
   \<and> is_vec 4 [5, 6, 7, 8::int]
   \<and> flattenMatrix (reshapeToMatrix [5, 6, 7, 8::int]) = [5, 6, 7, 8]"
  using flatten_reshape_roundtrip [of "[[1, 2], [3, 4::int]]" "[5, 6, 7, 8::int]"]
  by (simp add: is_mat_def is_vec_def)

text \<open>
  C10. The sequence \<open>w\<close> of the evolving engine is the same for any two initial
  coefficient vectors and any two initial values: it is determined by \<open>w0\<close>,
  \<open>W_evolve\<close> and \<open>steps\<close>.
\<close>

theorem w_independent_of_a0_x0:
  "snd (snd (evolveWithDrift a0 x0 w0 W_evolve steps))
     = snd (snd (evolveWithDrift a0' x0' w0 W_evolve steps))"
  by (simp add: evolveWithDrift_eq del: upt_Suc)

section \<open>Both engines\<close>

text \<open>
  C5. The sequences \<open>a\<close> and \<open>x\<close> of both engines, and the sequence \<open>w\<close> of the
  evolving engine, have exactly \<open>steps + 1\<close> entries.
\<close>

theorem output_lengths:
  "length (fst (evolve a0 x0 w steps)) = steps + 1
   \<and> length (snd (evolve a0 x0 w steps)) = steps + 1
   \<and> (case evolveWithDrift a0 x0 w0 W_evolve steps of
        (a, x, ws) \<Rightarrow> length a = steps + 1 \<and> length x = steps + 1 \<and> length ws = steps + 1)"
  by (simp add: evolve_eq evolveWithDrift_eq del: upt_Suc)

text \<open>
  C6. After either engine has run, the entries at index \<open>0\<close> are the initial
  values: \<open>a[0] = a0\<close> and \<open>x[0] = x0\<close>, and \<open>w[0] = w0\<close> in the evolving engine,
  for every step count and all matrices.
\<close>

theorem initial_values_kept:
  "fst (evolve a0 x0 w steps) ! 0 = a0
   \<and> snd (evolve a0 x0 w steps) ! 0 = x0
   \<and> (case evolveWithDrift a0 x0 w0 W_evolve steps of
        (a, x, ws) \<Rightarrow> a ! 0 = a0 \<and> x ! 0 = x0 \<and> ws ! 0 = w0)"
  by (simp add: evolve_eq evolveWithDrift_eq nth_map_upt del: upt_Suc)

text \<open>
  C8. \<open>calculateSystem\<close> computes the results from the parameters alone: two
  states of the component with the same parameters get the same results,
  whatever results and display flags they held before. This holds for both
  variants of the component.
\<close>

theorem calculateSystem_deterministic:
  "(params s = params t \<longrightarrow> results (calculateSystem s) = results (calculateSystem t))
   \<and> (paramsW sW = paramsW tW \<longrightarrow>
        resultsW (calculateSystemW sW) = resultsW (calculateSystemW tW))"
  by (simp add: calculateSystem_def calculateSystemW_def Let_def split: prod.split)

theorem calculateSystem_deterministic_witness:
  "params \<lparr>params = \<lparr>p_a0 = [''2'', ''3''], p_x0 = ''0'',
                       p_w = [[''0'', ''0''], [''0'', ''0'']], p_steps = 1\<rparr>,
           results = \<lparr>r_x = [], r_a = []\<rparr>, showCoefficients = False\<rparr>
   = params \<lparr>params = \<lparr>p_a0 = [''2'', ''3''], p_x0 = ''0'',
                         p_w = [[''0'', ''0''], [''0'', ''0'']], p_steps = 1\<rparr>,
             results = \<lparr>r_x = [], r_a = [[Finite 7]]\<rparr>, showCoefficients = True\<rparr>
   \<and> results (calculateSystem
        \<lparr>params = \<lparr>p_a0 = [''2'', ''3''], p_x0 = ''0'',
                    p_w = [[''0'', ''0''], [''0'', ''0'']], p_steps = 1\<rparr>,
         results = \<lparr>r_x = [], r_a = []\<rparr>, showCoefficients = False\<rparr>)
     = results (calculateSystem
        \<lparr>params = \<lparr>p_a0 = [''2'', ''3''], p_x0 = ''0'',
                    p_w = [[''0'', ''0''], [''0'', ''0'']], p_steps = 1\<rparr>,
         results = \<lparr>r_x = [], r_a = [[Finite 7]]\<rparr>, showCoefficients = True\<rparr>)
   \<and> paramsW \<lparr>paramsW = \<lparr>pw_a0 = [''2'', ''3''], pw_x0 = ''0'',
                  pw_w0 = [[''0'', ''0''], [''0'', ''0'']], pw_W_evolve = [], pw_steps = 0\<rparr>,
         resultsW = \<lparr>rw_x = [], rw_a = [], rw_w = []\<rparr>, showCoefficientsW = False,
         showTransitionMatrix = False, showWEvolutionMatrix = False\<rparr>
     = paramsW \<lparr>paramsW = \<lparr>pw_a0 = [''2'', ''3''], pw_x0 = ''0'',
                  pw_w0 = [[''0'', ''0''], [''0'', ''0'']], pw_W_evolve = [], pw_steps = 0\<rparr>,
         resultsW = \<lparr>rw_x = [], rw_a = [[Finite 7]], rw_w = []\<rparr>, showCoefficientsW = True,
         showTransitionMatrix = True, showWEvolutionMatrix = False\<rparr>
   \<and> resultsW (calculateSystemW
        \<lparr>paramsW = \<lparr>pw_a0 = [''2'', ''3''], pw_x0 = ''0'',
                  pw_w0 = [[''0'', ''0''], [''0'', ''0'']], pw_W_evolve = [], pw_steps = 0\<rparr>,
         resultsW = \<lparr>rw_x = [], rw_a = [], rw_w = []\<rparr>, showCoefficientsW = False,
         showTransitionMatrix = False, showWEvolutionMatrix = False\<rparr>)
     = resultsW (calculateSystemW
        \<lparr>paramsW = \<lparr>pw_a0 = [''2'', ''3''], pw_x0 = ''0'',
                  pw_w0 = [[''0'', ''0''], [''0'', ''0'']], pw_W_evolve = [], pw_steps = 0\<rparr>,
         resultsW = \<lparr>rw_x = [], rw_a = [[Finite 7]], rw_w = []\<rparr>, showCoefficientsW = True,
         showTransitionMatrix = True, showWEvolutionMatrix = False\<rparr>)"
  using calculateSystem_deterministic
    [of "\<lparr>params = \<lparr>p_a0 = [''2'', ''3''], p_x0 = ''0'',
                    p_w = [[''0'', ''0''], [''0'', ''0'']], p_steps = 1\<rparr>,
         results = \<lparr>r_x = [], r_a = []\<rparr>, showCoefficients = False\<rparr>"
        "\<lparr>params = \<lparr>p_a0 = [''2'', ''3''], p_x0 = ''0'',
                    p_w = [[''0'', ''0''], [''0'', ''0'']], p_steps = 1\<rparr>,
         results = \<lparr>r_x = [], r_a = [[Finite 7]]\<rparr>, showCoefficients = True\<rparr>"
        "\<lparr>paramsW = \<lparr>pw_a0 = [''2'', ''3''], pw_x0 = ''0'',
                  pw_w0 = [[''0'', ''0''], [''0'', ''0'']], pw_W_evolve = [], pw_steps = 0\<rparr>,
         resultsW = \<lparr>rw_x = [], rw_a = [], rw_w = []\<rparr>, showCoefficientsW = False,
         showTransitionMatrix = False, showWEvolutionMatrix = False\<rparr>"
        "\<lparr>paramsW = \<lparr>pw_a0 = [''2'', ''3''], pw_x0 = ''0'',
                  pw_w0 = [[''0'', ''0''], [''0'', ''0'']], pw_W_evolve = [], pw_steps = 0\<rparr>,
         resultsW = \<lparr>rw_x = [], rw_a = [[Finite 7]], rw_w = []\<rparr>, showCoefficientsW = True,
         showTransitionMatrix = True, showWEvolutionMatrix = False\<rparr>"]
  by simp

section \<open>The evolving engine with the identity as evolution matrix\<close>

text \<open>
  With the identity as \<open>W_evolve\<close> the matrix does not drift. The coefficient
  vector is then multiplied from the left, as a row, at every step, while the
  fixed engine multiplies it from the right, as a column: over a commutative
  semiring the evolving engine produces the sequences of the fixed engine run
  on the transposed matrix.
\<close>

lemma drift_w_identity:
  fixes w0 :: "'a::semiring_1 list list"
  assumes "is_mat 2 2 w0"
  shows "drift_w identity4 w0 n = w0"
proof (induction n)
  case 0
  show ?case by simp
next
  case (Suc n)
  from assms obtain p q r s where "w0 = [[p, q], [r, s]]" using is_mat22E by blast
  with Suc show ?case
    by (simp add: vectorMatrixMultiply_4 flattenMatrix_def reshapeToMatrix_def identity4_def)
qed

lemma drift_seq_identity:
  fixes w0 :: "'a::comm_semiring_1 list list"
  assumes "is_vec 2 a0" "is_mat 2 2 w0"
  shows "drift_seq identity4 w0 a0 x0 n = fixed_seq (transpose2 w0) a0 x0 n
         \<and> length (fst (drift_seq identity4 w0 a0 x0 n)) = 2"
proof (induction n)
  case 0
  show ?case using assms(1) by (simp add: is_vec_def)
next
  case (Suc n)
  from assms obtain p q r s where w0: "w0 = [[p, q], [r, s]]" using is_mat22E by blast
  obtain b y where bd: "fixed_seq (transpose2 w0) a0 x0 n = (b, y)"
    by (cases "fixed_seq (transpose2 w0) a0 x0 n")
  with Suc have "is_vec 2 b" by (auto simp: is_vec_def)
  then obtain b0 b1 where b: "b = [b0, b1]" using is_vec2E by blast
  show ?case using Suc bd b
    by (simp add: drift_w_identity [OF assms(2)])
       (simp add: w0 vectorMatrixMultiply_2 transpose2_def mult.commute)
qed

lemma evolveWithDrift_identity_transposed:
  fixes w0 :: "'a::comm_semiring_1 list list"
  assumes "is_vec 2 a0" "is_mat 2 2 w0"
  shows "evolveWithDrift a0 x0 w0 identity4 steps =
     (fst (evolve a0 x0 (transpose2 w0) steps), snd (evolve a0 x0 (transpose2 w0) steps),
      replicate (steps + 1) w0)"
proof -
  have "map (drift_w identity4 w0) [0..<Suc steps] = replicate (Suc steps) w0"
    unfolding drift_w_identity [OF assms(2)]
    by (simp add: map_replicate_const del: upt_Suc)
  then show ?thesis
    by (simp add: evolveWithDrift_eq evolve_eq drift_seq_identity [OF assms] del: upt_Suc)
qed

text \<open>
  C1. With the identity as \<open>W_evolve\<close> the evolving engine is meant to keep
  \<open>w[i] = w0\<close> and to produce the sequences \<open>a\<close> and \<open>x\<close> of the fixed engine
  on the same inputs. For \<open>a0 = [1, 0]\<close>, \<open>x0 = 1\<close>, \<open>w0 = [[1, 1], [0, 1]]\<close>
  and five steps it keeps \<open>w[i] = w0\<close>, but its \<open>a\<close> and \<open>x\<close> are not those
  of the fixed engine, whose \<open>a[i]\<close> stays \<open>[1, 0]\<close> and whose \<open>x[i]\<close> stays \<open>1\<close>.
\<close>

theorem identity_drift_differs_from_evolve:
  "evolveWithDrift [1, 0] 1 [[1, 1], [0, 1]] identity4 5
     = ([[1, 0], [1, 1], [1, 2], [1, 3], [1, 4], [1, 5]],
        [1, 1, 2, 4, 7, 11::real],
        [[[1, 1], [0, 1]], [[1, 1], [0, 1]], [[1, 1], [0, 1]],
         [[1, 1], [0, 1]], [[1, 1], [0, 1]], [[1, 1], [0, 1]]])
   \<and> evolve [1, 0] 1 [[1, 1], [0, 1]] 5
     = ([[1, 0], [1, 0], [1, 0], [1, 0], [1, 0], [1, 0]], [1, 1, 1, 1, 1, 1::real])"
proof
  show "evolveWithDrift [1, 0] 1 [[1, 1], [0, 1]] identity4 5
     = ([[1, 0], [1, 1], [1, 2], [1, 3], [1, 4], [1, 5]],
        [1, 1, 2, 4, 7, 11::real],
        [[[1, 1], [0, 1]], [[1, 1], [0, 1]], [[1, 1], [0, 1]],
         [[1, 1], [0, 1]], [[1, 1], [0, 1]], [[1, 1], [0, 1]]])"
    by (simp add: evolveWithDrift_eq upt_rec eval_nat_numeral vectorMatrixMultiply_2
        vectorMatrixMultiply_4 identity4_def flattenMatrix_def reshapeToMatrix_def)
  show "evolve [1, 0] 1 [[1, 1], [0, 1]] 5
     = ([[1, 0], [1, 0], [1, 0], [1, 0], [1, 0], [1, 0]], [1, 1, 1, 1, 1, 1::real])"
    by (simp add: evolve_eq upt_rec eval_nat_numeral)
qed

text \<open>
  The same input as the text of the fields, through \<open>calculateSystem\<close> of both
  variants.
\<close>

lemma calculateSystem_identity_example:
  "rw_a (resultsW (calculateSystemW
     \<lparr>paramsW = \<lparr>pw_a0 = [''1'', ''0''], pw_x0 = ''1'',
        pw_w0 = [[''1'', ''1''], [''0'', ''1'']],
        pw_W_evolve = [[''1'', ''0'', ''0'', ''0''], [''0'', ''1'', ''0'', ''0''],
                       [''0'', ''0'', ''1'', ''0''], [''0'', ''0'', ''0'', ''1'']],
        pw_steps = 5\<rparr>,
      resultsW = \<lparr>rw_x = [], rw_a = [], rw_w = []\<rparr>, showCoefficientsW = False,
      showTransitionMatrix = False, showWEvolutionMatrix = False\<rparr>))
   = [[Finite 1, Finite 0], [Finite 1, Finite 1], [Finite 1, Finite 2],
      [Finite 1, Finite 3], [Finite 1, Finite 4], [Finite 1, Finite 5]]
  \<and> r_a (results (calculateSystem
     \<lparr>params = \<lparr>p_a0 = [''1'', ''0''], p_x0 = ''1'', p_w = [[''1'', ''1''], [''0'', ''1'']],
        p_steps = 5\<rparr>,
      results = \<lparr>r_x = [], r_a = []\<rparr>, showCoefficients = False\<rparr>))
   = [[Finite 1, Finite 0], [Finite 1, Finite 0], [Finite 1, Finite 0],
      [Finite 1, Finite 0], [Finite 1, Finite 0], [Finite 1, Finite 0]]"
proof -
  have sp: "safeParseFloat ''1'' = Finite 1" "safeParseFloat ''0'' = Finite 0"
    by (simp_all add: safeParseFloat_def parse_defs Let_def number_arith)
  have d: "fst (evolveWithDrift [Finite 1, Finite 0] (Finite 1)
        [[Finite 1, Finite 1], [Finite 0, Finite 1]]
        [[Finite 1, Finite 0, Finite 0, Finite 0], [Finite 0, Finite 1, Finite 0, Finite 0],
         [Finite 0, Finite 0, Finite 1, Finite 0], [Finite 0, Finite 0, Finite 0, Finite 1]] 5)
     = [[Finite 1, Finite 0], [Finite 1, Finite 1], [Finite 1, Finite 2],
        [Finite 1, Finite 3], [Finite 1, Finite 4], [Finite 1, Finite 5]]"
    by (simp add: evolveWithDrift_eq upt_rec eval_nat_numeral vectorMatrixMultiply_2
        vectorMatrixMultiply_4 flattenMatrix_def reshapeToMatrix_def number_arith)
  have f: "fst (evolve [Finite 1, Finite 0] (Finite 1)
        [[Finite 1, Finite 1], [Finite 0, Finite 1]] 5)
     = [[Finite 1, Finite 0], [Finite 1, Finite 0], [Finite 1, Finite 0],
        [Finite 1, Finite 0], [Finite 1, Finite 0], [Finite 1, Finite 0]]"
    by (simp add: evolve_eq upt_rec eval_nat_numeral number_arith)
  show ?thesis
    using d f
    by (simp add: calculateSystemW_def calculateSystem_def sp Let_def case_prod_beta)
qed

end
